theory Spec2Isabelle
  imports Complex_Main "HOL-Library.AList"
begin

section \<open>JavaScript numbers\<close>

text \<open>
  Every quantity of the orbital engine in \<^verbatim>\<open>script.js\<close> is a JavaScript number. The
  embedding keeps the three special values the engine tests for (\<^verbatim>\<open>NaN\<close>,
  \<^verbatim>\<open>Infinity\<close>, \<^verbatim>\<open>-Infinity\<close>) and takes every other number as a real: arithmetic on
  finite numbers is exact (no rounding, no overflow to \<^verbatim>\<open>Infinity\<close>, no underflow, and no
  distinction between \<^verbatim>\<open>+0\<close> and \<^verbatim>\<open>-0\<close>). The special values follow IEEE 754 as
  ECMAScript prescribes: \<^verbatim>\<open>NaN\<close> is absorbing, every comparison with \<^verbatim>\<open>NaN\<close> is false,
  \<^verbatim>\<open>Infinity - Infinity\<close>, \<^verbatim>\<open>0 * Infinity\<close>, \<^verbatim>\<open>Infinity / Infinity\<close> and \<^verbatim>\<open>0 / 0\<close>
  are \<^verbatim>\<open>NaN\<close>, and the trigonometric functions of an infinite argument are \<^verbatim>\<open>NaN\<close>.
  The theorems below rest on the special values, on the control flow, and on finite
  computations that are exact in doubles too (such as \<open>cos 0 = 1\<close> and \<open>x * 0 = 0\<close>);
  properties that hinge on the rounding, overflow or underflow of finite doubles are outside
  this model.
\<close>

datatype jsnum = Fin real | PInf | NInf | NaN

fun isNaN :: "jsnum \<Rightarrow> bool" where
  "isNaN NaN = True"
| "isNaN _ = False"

fun isFinite :: "jsnum \<Rightarrow> bool" where
  "isFinite (Fin _) = True"
| "isFinite _ = False"

text \<open>Truthiness of a number, as \<^verbatim>\<open>!v\<close> and \<^verbatim>\<open>v || w\<close> test it: \<^verbatim>\<open>0\<close> and \<^verbatim>\<open>NaN\<close> are falsy.\<close>

fun truthy :: "jsnum \<Rightarrow> bool" where
  "truthy (Fin a) = (a \<noteq> 0)"
| "truthy NaN = False"
| "truthy _ = True"

text \<open>The sign of a number that is not \<^verbatim>\<open>NaN\<close>, and the infinity of a given sign.\<close>

fun jsgn :: "jsnum \<Rightarrow> real" where
  "jsgn (Fin a) = sgn a"
| "jsgn PInf = 1"
| "jsgn NInf = - 1"
| "jsgn NaN = 0"

definition ofSign :: "real \<Rightarrow> jsnum" where
  "ofSign s = (if 0 < s then PInf else if s < 0 then NInf else NaN)"

fun jneg :: "jsnum \<Rightarrow> jsnum" where
  "jneg (Fin a) = Fin (- a)"
| "jneg PInf = NInf"
| "jneg NInf = PInf"
| "jneg NaN = NaN"

fun jadd :: "jsnum \<Rightarrow> jsnum \<Rightarrow> jsnum" where
  "jadd (Fin a) (Fin b) = Fin (a + b)"
| "jadd NaN _ = NaN"
| "jadd _ NaN = NaN"
| "jadd PInf NInf = NaN"
| "jadd NInf PInf = NaN"
| "jadd PInf _ = PInf"
| "jadd _ PInf = PInf"
| "jadd NInf _ = NInf"
| "jadd _ NInf = NInf"

definition jsub :: "jsnum \<Rightarrow> jsnum \<Rightarrow> jsnum" where
  "jsub a b = jadd a (jneg b)"

fun jmul :: "jsnum \<Rightarrow> jsnum \<Rightarrow> jsnum" where
  "jmul (Fin a) (Fin b) = Fin (a * b)"
| "jmul a b = (if isNaN a \<or> isNaN b then NaN else ofSign (jsgn a * jsgn b))"

text \<open>
  Division. A finite nonzero number over zero is the infinity of the dividend's sign (the
  divisor is taken as \<^verbatim>\<open>+0\<close>); every division of the engine is guarded so that its divisor
  is not zero.
\<close>

fun jdiv :: "jsnum \<Rightarrow> jsnum \<Rightarrow> jsnum" where
  "jdiv (Fin a) (Fin b) = (if b \<noteq> 0 then Fin (a / b) else ofSign (sgn a))"
| "jdiv NaN _ = NaN"
| "jdiv _ NaN = NaN"
| "jdiv (Fin a) _ = Fin 0"
| "jdiv a (Fin b) = ofSign (jsgn a * (if b < 0 then - 1 else 1))"
| "jdiv _ _ = NaN"

text \<open>The remainder operator \<^verbatim>\<open>%\<close>: the result has the sign of the dividend.\<close>

definition truncR :: "real \<Rightarrow> real" where
  "truncR q = (if 0 \<le> q then of_int \<lfloor>q\<rfloor> else of_int \<lceil>q\<rceil>)"

fun jrem :: "jsnum \<Rightarrow> jsnum \<Rightarrow> jsnum" where
  "jrem (Fin a) (Fin b) = (if b = 0 then NaN else Fin (a - b * truncR (a / b)))"
| "jrem (Fin a) PInf = Fin a"
| "jrem (Fin a) NInf = Fin a"
| "jrem _ _ = NaN"

fun jabs :: "jsnum \<Rightarrow> jsnum" where
  "jabs (Fin a) = Fin \<bar>a\<bar>"
| "jabs PInf = PInf"
| "jabs NInf = PInf"
| "jabs NaN = NaN"

fun jsqrt :: "jsnum \<Rightarrow> jsnum" where
  "jsqrt (Fin a) = (if a < 0 then NaN else Fin (sqrt a))"
| "jsqrt PInf = PInf"
| "jsqrt _ = NaN"

fun jsin :: "jsnum \<Rightarrow> jsnum" where
  "jsin (Fin a) = Fin (sin a)"
| "jsin _ = NaN"

fun jcos :: "jsnum \<Rightarrow> jsnum" where
  "jcos (Fin a) = Fin (cos a)"
| "jcos _ = NaN"

fun jlt :: "jsnum \<Rightarrow> jsnum \<Rightarrow> bool" where
  "jlt (Fin a) (Fin b) = (a < b)"
| "jlt NaN _ = False"
| "jlt _ NaN = False"
| "jlt PInf _ = False"
| "jlt _ NInf = False"
| "jlt _ _ = True"

fun jle :: "jsnum \<Rightarrow> jsnum \<Rightarrow> bool" where
  "jle (Fin a) (Fin b) = (a \<le> b)"
| "jle NaN _ = False"
| "jle _ NaN = False"
| "jle NInf _ = True"
| "jle _ PInf = True"
| "jle _ _ = False"

definition jgt :: "jsnum \<Rightarrow> jsnum \<Rightarrow> bool" where
  "jgt a b = jlt b a"

definition jge :: "jsnum \<Rightarrow> jsnum \<Rightarrow> bool" where
  "jge a b = jle b a"

text \<open>\<^verbatim>\<open>Math.max\<close> and \<^verbatim>\<open>Math.min\<close> of two numbers: \<^verbatim>\<open>NaN\<close> if either is.\<close>

definition jmax :: "jsnum \<Rightarrow> jsnum \<Rightarrow> jsnum" where
  "jmax a b = (if isNaN a \<or> isNaN b then NaN else if jlt a b then b else a)"

definition jmin :: "jsnum \<Rightarrow> jsnum \<Rightarrow> jsnum" where
  "jmin a b = (if isNaN a \<or> isNaN b then NaN else if jlt b a then b else a)"


section \<open>Configuration and data model\<close>

text \<open>The physical constants of the configuration file, as exact decimals.\<close>

definition G :: jsnum where
  "G = Fin (667430 / 10 ^ 16)"

definition AU :: jsnum where
  "AU = Fin (1496 * 10 ^ 8)"

definition SOLAR_MASS :: jsnum where
  "SOLAR_MASS = Fin (1989 * 10 ^ 27)"

text \<open>
  An entry of the \<^verbatim>\<open>PLANETS\<close> table. Only the fields the engine computes with are kept
  (the name, colour, display radius and mass are used by the rendering code alone).
\<close>

record planet =
  semiMajorAxis :: jsnum
  eccentricity :: jsnum
  period :: jsnum

text \<open>A point \<^verbatim>\<open>{ x, y }\<close>; the fields are named \<open>vx\<close> and \<open>vy\<close> here.\<close>

record vec2 =
  vx :: jsnum
  vy :: jsnum

record planet_state =
  data :: planet
  meanAnomaly :: jsnum
  position :: vec2
  velocity :: vec2
  trail :: "vec2 list"

definition zeroVec :: vec2 where
  "zeroVec = \<lparr>vx = Fin 0, vy = Fin 0\<rparr>"

text \<open>
  The simulation fields of the \<^verbatim>\<open>SolarSystem\<close> object. \<^verbatim>\<open>planetStates\<close> is an object
  used as a dictionary; it is an association list in insertion order, which is the order
  \<^verbatim>\<open>Object.keys\<close> enumerates. \<^verbatim>\<open>maxTrailLength\<close> is compared with an array length only.
\<close>

record solar_system =
  timeSpeed :: jsnum
  currentTime :: jsnum
  isPaused :: bool
  showTrails :: bool
  maxTrailLength :: nat
  planetStates :: "(string \<times> planet_state) list"

text \<open>The errors thrown inside the engine, one constructor for each \<^verbatim>\<open>throw\<close>.\<close>

datatype error =
    InvalidSemiMajorAxis
  | InvalidEccentricity
  | InvalidMeanAnomaly
  | InvalidPositionResult
  | InvalidDistance
  | InvalidVelocityResult
  | InvalidPeriod
  | InvalidPeriodCalculation
  | InvalidCurrentDate
  | InvalidEpochDate
  | InvalidTimeOffset
  | NoPlanetsInitialized

section \<open>Kepler's equation\<close>

text \<open>
  The Newton-Raphson loop of \<^verbatim>\<open>solveKeplersEquation\<close>. Its state is the triple of the
  variables \<^verbatim>\<open>E\<close>, \<^verbatim>\<open>delta\<close> and \<^verbatim>\<open>iterations\<close>; the result carries the final triple
  and whether the loop was left by the \<^verbatim>\<open>break\<close> of the near-zero denominator test.
\<close>

definition maxIterations :: nat where
  "maxIterations = 100"

function keplerLoop ::
  "jsnum \<Rightarrow> jsnum \<Rightarrow> jsnum \<Rightarrow> jsnum \<Rightarrow> jsnum \<Rightarrow> nat \<Rightarrow> jsnum \<times> jsnum \<times> nat \<times> bool" where
  "keplerLoop M e tolerance E delta iterations =
     (if jgt (jabs delta) tolerance \<and> iterations < maxIterations then
        (let denominator = jsub (Fin 1) (jmul e (jcos E)) in
         if jlt (jabs denominator) (Fin (1 / 10 ^ 10)) then (E, delta, iterations, True)
         else
           (let delta' = jdiv (jsub (jsub E (jmul e (jsin E))) M) denominator in
            keplerLoop M e tolerance (jsub E delta') delta' (Suc iterations)))
      else (E, delta, iterations, False))"
  by pat_completeness auto
termination
  by (relation "measure (\<lambda>(M, e, tolerance, E, delta, iterations). maxIterations - iterations)")
    auto

declare keplerLoop.simps [simp del]

text \<open>The eccentricity the loop runs with: clamped when outside \<open>[0, 1)\<close>.\<close>

definition clampEccentricity :: "jsnum \<Rightarrow> jsnum" where
  "clampEccentricity e =
     (if jlt e (Fin 0) \<or> jge e (Fin 1) then jmax (Fin 0) (jmin (Fin (99 / 100)) e) else e)"

definition solveKeplersRun :: "jsnum \<Rightarrow> jsnum \<Rightarrow> jsnum \<Rightarrow> jsnum \<times> jsnum \<times> nat \<times> bool" where
  "solveKeplersRun M e tolerance =
     keplerLoop M (clampEccentricity e) tolerance M (Fin 1) 0"

definition solveKeplersEquation :: "jsnum \<Rightarrow> jsnum \<Rightarrow> jsnum \<Rightarrow> jsnum" where
  "solveKeplersEquation M e tolerance =
     (if isNaN M \<or> isNaN e then Fin 0 else fst (solveKeplersRun M e tolerance))"

text \<open>The default value of the parameter \<^verbatim>\<open>tolerance\<close>.\<close>

definition defaultTolerance :: jsnum where
  "defaultTolerance = Fin (1 / 10 ^ 6)"

section \<open>Position and speed\<close>

text \<open>
  \<^verbatim>\<open>calculateOrbitalPosition\<close>: the body of the \<^verbatim>\<open>try\<close> block returns the position or
  the error it throws; the \<^verbatim>\<open>catch\<close> block turns every error into the fallback position.
\<close>

definition calculateOrbitalPositionTry :: "planet \<Rightarrow> jsnum \<Rightarrow> error + vec2" where
  "calculateOrbitalPositionTry planet M =
     (let a = semiMajorAxis planet; e = eccentricity planet in
      if isNaN a \<or> jle a (Fin 0) then Inl InvalidSemiMajorAxis
      else if isNaN e \<or> jlt e (Fin 0) \<or> jge e (Fin 1) then Inl InvalidEccentricity
      else if isNaN M then Inl InvalidMeanAnomaly
      else
        (let E = solveKeplersEquation M e defaultTolerance;
             x = jmul a (jsub (jcos E) e);
             y = jmul (jmul a (jsqrt (jsub (Fin 1) (jmul e e)))) (jsin E)
         in if \<not> isFinite x \<or> \<not> isFinite y then Inl InvalidPositionResult
            else Inr \<lparr>vx = x, vy = y\<rparr>))"

definition fallbackPosition :: "planet \<Rightarrow> vec2" where
  "fallbackPosition planet =
     \<lparr>vx = (if truthy (semiMajorAxis planet) then semiMajorAxis planet else Fin 1), vy = Fin 0\<rparr>"

definition calculateOrbitalPosition :: "planet \<Rightarrow> jsnum \<Rightarrow> vec2" where
  "calculateOrbitalPosition planet M =
     (case calculateOrbitalPositionTry planet M of
        Inr p \<Rightarrow> p
      | Inl err \<Rightarrow> fallbackPosition planet)"

text \<open>The distance \<^verbatim>\<open>Math.sqrt(x * x + y * y)\<close> of a position from the focus.\<close>

definition radius :: "vec2 \<Rightarrow> jsnum" where
  "radius p = jsqrt (jadd (jmul (vx p) (vx p)) (jmul (vy p) (vy p)))"

definition calculateOrbitalVelocityTry :: "planet \<Rightarrow> vec2 \<Rightarrow> error + jsnum" where
  "calculateOrbitalVelocityTry planet pos =
     (let a = jmul (semiMajorAxis planet) AU;
          r = jmul (radius pos) AU in
      if jle r (Fin 0) \<or> \<not> isFinite r then Inl InvalidDistance
      else if jle a (Fin 0) \<or> \<not> isFinite a then Inl InvalidSemiMajorAxis
      else
        (let vSquared = jmul (jmul G SOLAR_MASS) (jsub (jdiv (Fin 2) r) (jdiv (Fin 1) a));
             v = jsqrt (jabs vSquared)
         in if \<not> isFinite v then Inl InvalidVelocityResult
            else Inr (jdiv v (Fin 1000))))"

definition calculateOrbitalVelocity :: "planet \<Rightarrow> vec2 \<Rightarrow> jsnum" where
  "calculateOrbitalVelocity planet pos =
     (case calculateOrbitalVelocityTry planet pos of
        Inr v \<Rightarrow> v
      | Inl err \<Rightarrow> Fin 0)"

section \<open>The simulation clock\<close>

text \<open>
  The body of the \<^verbatim>\<open>forEach\<close> callback of \<^verbatim>\<open>update\<close>, for one body. \<^verbatim>\<open>Math.PI\<close> is
  taken as \<open>pi\<close>, and \<^verbatim>\<open>v ** 2\<close> as \<^verbatim>\<open>v * v\<close>.
\<close>

definition updatePlanet :: "solar_system \<Rightarrow> planet_state \<Rightarrow> planet_state" where
  "updatePlanet sys state =
     (let planet = data state;
          periodInDays = jmul (period planet) (Fin (1461 / 4)) in
      if jle periodInDays (Fin 0) \<or> \<not> isFinite periodInDays then state
      else
        (let M = jrem (jdiv (jmul (jmul (Fin 2) (Fin pi)) (currentTime sys)) periodInDays)
                   (jmul (Fin 2) (Fin pi));
             pos = calculateOrbitalPosition planet M;
             speed = calculateOrbitalVelocity planet pos;
             r = radius pos;
             vel = (if jgt r (Fin 0)
                    then \<lparr>vx = jmul (jdiv (jneg (vy pos)) r) speed,
                          vy = jmul (jdiv (vx pos) r) speed\<rparr>
                    else velocity state);
             tr = (if showTrails sys
                   then (let pushed = trail state @ [\<lparr>vx = vx pos, vy = vy pos\<rparr>] in
                         if length pushed > maxTrailLength sys then tl pushed else pushed)
                   else [])
         in state\<lparr>meanAnomaly := M, position := pos, velocity := vel, trail := tr\<rparr>))"

text \<open>
  \<^verbatim>\<open>update\<close>. No statement of its body throws on these data (the two calculations catch
  their own errors), so the \<^verbatim>\<open>catch\<close> block that pauses the simulation is never entered.
\<close>

definition update :: "solar_system \<Rightarrow> jsnum \<Rightarrow> solar_system" where
  "update sys deltaTime =
     (if isPaused sys then sys
      else if \<not> isFinite deltaTime \<or> isNaN deltaTime then sys
      else
        (let sys' = sys\<lparr>currentTime := jadd (currentTime sys) (jmul deltaTime (timeSpeed sys))\<rparr>
         in sys'\<lparr>planetStates :=
                   map (\<lambda>(key, state). (key, updatePlanet sys' state)) (planetStates sys')\<rparr>))"

text \<open>The states after each of a sequence of ticks, oldest first.\<close>

fun ticks :: "solar_system \<Rightarrow> jsnum list \<Rightarrow> solar_system list" where
  "ticks sys [] = []"
| "ticks sys (deltaTime # rest) = update sys deltaTime # ticks (update sys deltaTime) rest"

definition bodyState :: "solar_system \<Rightarrow> string \<Rightarrow> planet_state option" where
  "bodyState sys key = map_of (planetStates sys) key"

text \<open>The last \<open>n\<close> elements of a list, and the bound on every trail of a state.\<close>

definition lastn :: "nat \<Rightarrow> 'a list \<Rightarrow> 'a list" where
  "lastn n xs = drop (length xs - n) xs"

definition trailsBounded :: "solar_system \<Rightarrow> bool" where
  "trailsBounded sys = (\<forall>(key, state) \<in> set (planetStates sys). length (trail state) \<le> maxTrailLength sys)"

section \<open>Initialization and reset\<close>

text \<open>
  The time offset computed at the start of \<^verbatim>\<open>initializePlanets\<close>. The two dates are given
  by their time values in milliseconds (\<^verbatim>\<open>NaN\<close> for an invalid date).
\<close>

definition timeOffsetOf :: "bool \<Rightarrow> jsnum \<Rightarrow> jsnum \<Rightarrow> error + jsnum" where
  "timeOffsetOf startAtCurrentDate now epoch =
     (if startAtCurrentDate then
        (if isNaN now then Inl InvalidCurrentDate
         else if isNaN epoch then Inl InvalidEpochDate
         else
           (let timeOffset = jdiv (jsub now epoch) (Fin (1000 * 60 * 60 * 24)) in
            if \<not> isFinite timeOffset then Inl InvalidTimeOffset else Inr timeOffset))
      else Inr (Fin 0))"

text \<open>The inner \<^verbatim>\<open>try\<close> block, for one entry of \<^verbatim>\<open>PLANETS\<close>: the new state of the body, or the error.\<close>

definition initializePlanet :: "jsnum \<Rightarrow> planet \<Rightarrow> error + planet_state" where
  "initializePlanet timeOffset planet =
     (if \<not> truthy (period planet) \<or> jle (period planet) (Fin 0) then Inl InvalidPeriod
      else
        (case (if jgt timeOffset (Fin 0) then
                 (let periodInDays = jmul (period planet) (Fin (1461 / 4)) in
                  if jle periodInDays (Fin 0) \<or> \<not> isFinite periodInDays
                  then Inl InvalidPeriodCalculation
                  else Inr (jrem (jdiv (jmul (jmul (Fin 2) (Fin pi)) timeOffset) periodInDays)
                              (jmul (Fin 2) (Fin pi))))
               else Inr (Fin 0)) of
           Inl err \<Rightarrow> Inl err
         | Inr M \<Rightarrow>
             Inr (\<lparr>data = planet, meanAnomaly = M,
                   position = \<lparr>vx = Fin 0, vy = Fin 0\<rparr>,
                   velocity = \<lparr>vx = Fin 0, vy = Fin 0\<rparr>,
                   trail = []\<rparr>\<lparr>position := calculateOrbitalPosition planet M\<rparr>)))"

text \<open>The \<^verbatim>\<open>forEach\<close> over the keys: a body whose initialization fails is skipped.\<close>

fun initializeEach ::
  "jsnum \<Rightarrow> (string \<times> planet) list \<Rightarrow> (string \<times> planet_state) list \<Rightarrow> (string \<times> planet_state) list" where
  "initializeEach timeOffset [] states = states"
| "initializeEach timeOffset ((key, planet) # rest) states =
     (case initializePlanet timeOffset planet of
        Inr state \<Rightarrow> initializeEach timeOffset rest (AList.update key state states)
      | Inl err \<Rightarrow> initializeEach timeOffset rest states)"

text \<open>
  \<^verbatim>\<open>initializePlanets\<close>: the state when the method returns or throws, and the error thrown.
\<close>

definition initializePlanets ::
  "bool \<Rightarrow> jsnum \<Rightarrow> jsnum \<Rightarrow> (string \<times> planet) list \<Rightarrow> solar_system \<Rightarrow> solar_system \<times> error option" where
  "initializePlanets startAtCurrentDate now epoch PLANETS sys =
     (case timeOffsetOf startAtCurrentDate now epoch of
        Inl err \<Rightarrow> (sys, Some err)
      | Inr timeOffset \<Rightarrow>
          (let sys1 = (if startAtCurrentDate then sys\<lparr>currentTime := timeOffset\<rparr> else sys);
               sys2 = sys1\<lparr>planetStates := initializeEach timeOffset PLANETS (planetStates sys1)\<rparr>
           in if length (planetStates sys2) = 0 then (sys2, Some NoPlanetsInitialized)
              else (sys2, None)))"

text \<open>The simulation fields the constructor sets before it initializes the planets.\<close>

definition newSystem :: "jsnum \<Rightarrow> bool \<Rightarrow> nat \<Rightarrow> solar_system" where
  "newSystem speed trails maxTrail =
     \<lparr>timeSpeed = speed, currentTime = Fin 0, isPaused = False, showTrails = trails,
      maxTrailLength = maxTrail, planetStates = []\<rparr>"

text \<open>The click handler of the reset button; it logs an error of \<^verbatim>\<open>initializePlanets\<close> and goes on.\<close>

definition reset :: "bool \<Rightarrow> jsnum \<Rightarrow> jsnum \<Rightarrow> (string \<times> planet) list \<Rightarrow> solar_system \<Rightarrow> solar_system" where
  "reset startAtCurrentDate now epoch PLANETS sys =
     fst (initializePlanets startAtCurrentDate now epoch PLANETS
            (sys\<lparr>currentTime :=
                   (if startAtCurrentDate then jdiv (jsub now epoch) (Fin (1000 * 60 * 60 * 24))
                    else Fin 0)\<rparr>))"

text \<open>
  The states of a simulation over a table \<^verbatim>\<open>PLANETS\<close>: constructed, then ticked, reset, and
  changed by the controls (pause, trail checkbox, speed).
\<close>

inductive reachable :: "(string \<times> planet) list \<Rightarrow> solar_system \<Rightarrow> bool"
  for PLANETS :: "(string \<times> planet) list" where
  constructed:
    "initializePlanets startAtCurrentDate now epoch PLANETS (newSystem speed trails maxTrail)
       = (sys, None) \<Longrightarrow> reachable PLANETS sys"
| ticked: "reachable PLANETS sys \<Longrightarrow> reachable PLANETS (update sys deltaTime)"
| was_reset:
    "reachable PLANETS sys \<Longrightarrow> reachable PLANETS (reset startAtCurrentDate now epoch PLANETS sys)"
| paused: "reachable PLANETS sys \<Longrightarrow> reachable PLANETS (sys\<lparr>isPaused := b\<rparr>)"
| trails_set: "reachable PLANETS sys \<Longrightarrow> reachable PLANETS (sys\<lparr>showTrails := b\<rparr>)"
| speed_set: "reachable PLANETS sys \<Longrightarrow> reachable PLANETS (sys\<lparr>timeSpeed := speed\<rparr>)"

section \<open>Sample data\<close>

text \<open>The entry of the Earth in the configuration file.\<close>

definition earth :: planet where
  "earth = \<lparr>semiMajorAxis = Fin 1, eccentricity = Fin (17 / 1000), period = Fin 1\<rparr>"

text \<open>
  The simulation constructed at the epoch from a table with the Earth alone, with trails
  shown and a trail capacity of one position.
\<close>

definition sampleSystem :: solar_system where
  "sampleSystem =
     fst (initializePlanets False (Fin 0) (Fin 0) [(''earth'', earth)]
            (newSystem (Fin (1 / 10)) True 1))"

text \<open>A body whose semi-major axis is \<^verbatim>\<open>Infinity\<close>, on a circular orbit of one year.\<close>

definition unbounded :: planet where
  "unbounded = \<lparr>semiMajorAxis = PInf, eccentricity = Fin 0, period = Fin 1\<rparr>"


section \<open>Facts about the number model\<close>

lemma jlt_NaN [simp]: "jlt a NaN = False"
  by (cases a) simp_all

lemma jle_NaN [simp]: "jle a NaN = False"
  by (cases a) simp_all

lemma jadd_NaN [simp]: "jadd a NaN = NaN"
  by (cases a) simp_all

lemma jsub_NaN [simp]: "jsub a NaN = NaN" "jsub NaN a = NaN"
  by (simp_all add: jsub_def)

lemma jmul_NaN [simp]: "jmul a NaN = NaN" "jmul NaN a = NaN"
  by (cases a; simp)+

lemma jdiv_NaN [simp]: "jdiv a NaN = NaN"
  by (cases a) simp_all

section \<open>Runs of the solver on special inputs\<close>

lemma clamp_valid: "0 \<le> e \<Longrightarrow> e < 1 \<Longrightarrow> clampEccentricity (Fin e) = Fin e"
  by (simp add: clampEccentricity_def jge_def)


lemma keplerLoop_circular:
  "M = Fin m \<Longrightarrow> E = Fin m \<Longrightarrow> e = Fin 0 \<Longrightarrow> fst (keplerLoop M e tolerance E delta iterations) = Fin m"
proof (induction M e tolerance E delta iterations rule: keplerLoop.induct)
  case (1 M e tolerance E delta iterations)
  show ?case
    apply (subst keplerLoop.simps)
    using 1
    apply (simp add: jsub_def Let_def)
    done
qed

lemma keplerLoop_NaN:
  "fst (keplerLoop M e tolerance NaN NaN iterations) = NaN"
  by (subst keplerLoop.simps) (simp add: jgt_def)

lemma keplerLoop_PInf:
  "fst (keplerLoop PInf (Fin c) defaultTolerance PInf (Fin 1) 0) = NaN"
  by (subst keplerLoop.simps)
    (simp add: defaultTolerance_def maxIterations_def jgt_def Let_def keplerLoop_NaN)

lemma keplerLoop_NInf:
  "fst (keplerLoop NInf (Fin c) defaultTolerance NInf (Fin 1) 0) = NaN"
  by (subst keplerLoop.simps)
    (simp add: defaultTolerance_def maxIterations_def jgt_def Let_def keplerLoop_NaN)

lemma solve_infinite:
  assumes "isFinite e" and "M = PInf \<or> M = NInf"
  shows "solveKeplersEquation M e defaultTolerance = NaN"
proof -
  from assms(1) obtain c where e: "e = Fin c" by (cases e) simp_all
  obtain c' where c': "clampEccentricity (Fin c) = Fin c'"
    by (cases "clampEccentricity (Fin c)")
      (simp_all add: clampEccentricity_def jmax_def jmin_def jge_def split: if_splits)
  from assms(2) show ?thesis
    by (auto simp: e c' solveKeplersEquation_def solveKeplersRun_def keplerLoop_PInf keplerLoop_NInf)
qed


section \<open>Perihelion, and the mean anomaly \<^verbatim>\<open>Math.PI\<close>\<close>







section \<open>Guards of the solver\<close>



section \<open>The fallback position\<close>

text \<open>
  Claim C4, as amended. When the validation of \<^verbatim>\<open>calculateOrbitalPosition\<close> fails (the
  semi-major axis is \<^verbatim>\<open>NaN\<close> or not positive, the eccentricity is \<^verbatim>\<open>NaN\<close> or outside
  \<open>[0, 1)\<close>, or the mean anomaly is not finite) and the semi-major axis is not infinite, the
  function returns \<open>(1, 0)\<close> if the semi-major axis is \<open>0\<close> or \<^verbatim>\<open>NaN\<close>, and
  \<open>(semiMajorAxis, 0)\<close> otherwise, also for a negative semi-major axis; no error leaves
  the function.
\<close>

theorem fallback_position:
  assumes "isNaN a \<or> jle a (Fin 0) \<or> isNaN e \<or> jlt e (Fin 0) \<or> jge e (Fin 1) \<or> \<not> isFinite M"
    and "isFinite a \<or> isNaN a"
  shows "calculateOrbitalPosition \<lparr>semiMajorAxis = a, eccentricity = e, period = T\<rparr> M
           = \<lparr>vx = (if isNaN a \<or> a = Fin 0 then Fin 1 else a), vy = Fin 0\<rparr>"
proof -
  have fb: "fallbackPosition \<lparr>semiMajorAxis = a, eccentricity = e, period = T\<rparr>
              = \<lparr>vx = (if isNaN a \<or> a = Fin 0 then Fin 1 else a), vy = Fin 0\<rparr>"
    using assms(2) by (cases a) (auto simp: fallbackPosition_def)
  have "\<exists>err. calculateOrbitalPositionTry \<lparr>semiMajorAxis = a, eccentricity = e, period = T\<rparr> M = Inl err"
  proof (cases "isNaN a \<or> jle a (Fin 0) \<or> isNaN e \<or> jlt e (Fin 0) \<or> jge e (Fin 1) \<or> isNaN M")
    case True
    then show ?thesis
      by (auto simp: calculateOrbitalPositionTry_def Let_def)
  next
    case False
    with assms(1) have inf: "M = PInf \<or> M = NInf"
      by (cases M) auto
    from False have "isFinite e" by (cases e) (simp_all add: jge_def)
    from solve_infinite [OF this inf] False show ?thesis
      by (simp add: calculateOrbitalPositionTry_def Let_def)
  qed
  then obtain err where
    "calculateOrbitalPositionTry \<lparr>semiMajorAxis = a, eccentricity = e, period = T\<rparr> M = Inl err" ..
  then have "calculateOrbitalPosition \<lparr>semiMajorAxis = a, eccentricity = e, period = T\<rparr> M
               = fallbackPosition \<lparr>semiMajorAxis = a, eccentricity = e, period = T\<rparr>"
    by (simp only: calculateOrbitalPosition_def sum.case)
  then show ?thesis
    by (rule trans) (rule fb)
qed

theorem fallback_position_witness:
  "calculateOrbitalPosition \<lparr>semiMajorAxis = Fin 2, eccentricity = Fin (3 / 2), period = Fin 1\<rparr> (Fin 0)
       = \<lparr>vx = Fin 2, vy = Fin 0\<rparr>
   \<and> calculateOrbitalPosition \<lparr>semiMajorAxis = Fin 2, eccentricity = Fin 0, period = Fin 1\<rparr> PInf
       = \<lparr>vx = Fin 2, vy = Fin 0\<rparr>
   \<and> calculateOrbitalPosition \<lparr>semiMajorAxis = NaN, eccentricity = Fin 0, period = Fin 1\<rparr> (Fin 0)
       = \<lparr>vx = Fin 1, vy = Fin 0\<rparr>
   \<and> calculateOrbitalPosition \<lparr>semiMajorAxis = Fin 0, eccentricity = Fin 0, period = Fin 1\<rparr> (Fin 0)
       = \<lparr>vx = Fin 1, vy = Fin 0\<rparr>"
  using fallback_position [of "Fin 2" "Fin (3 / 2)" "Fin 0" "Fin 1"]
    fallback_position [of "Fin 2" "Fin 0" PInf "Fin 1"]
    fallback_position [of NaN "Fin 0" "Fin 0" "Fin 1"]
    fallback_position [of "Fin 0" "Fin 0" "Fin 0" "Fin 1"]
  by (simp add: jge_def)

text \<open>
  The claim C4 as first stated asks for \<open>(1, 0)\<close> whenever the semi-major axis is invalid.
  For the semi-major axis \<open>- 5\<close> the function returns \<open>(- 5, 0)\<close>.
\<close>

theorem fallback_negative_axis:
  "calculateOrbitalPosition \<lparr>semiMajorAxis = Fin (- 5), eccentricity = Fin 0, period = Fin 1\<rparr> (Fin 0)
       = \<lparr>vx = Fin (- 5), vy = Fin 0\<rparr>
   \<and> calculateOrbitalPosition \<lparr>semiMajorAxis = Fin (- 5), eccentricity = Fin 0, period = Fin 1\<rparr> (Fin 0)
       \<noteq> \<lparr>vx = Fin 1, vy = Fin 0\<rparr>
   \<and> \<not> jgt (Fin (- 5)) (Fin 0)"
  by (simp add: calculateOrbitalPosition_def calculateOrbitalPositionTry_def fallbackPosition_def
      Let_def jgt_def)

section \<open>Ticks that do nothing\<close>

text \<open>
  Claim C8. When the simulation is paused, or when the time delta is \<^verbatim>\<open>NaN\<close>,
  \<^verbatim>\<open>Infinity\<close> or \<^verbatim>\<open>-Infinity\<close>, \<^verbatim>\<open>update\<close> leaves the whole state unchanged: the
  simulation time and the position, velocity, mean anomaly and trail of every body.
\<close>

theorem update_noop:
  assumes "isPaused sys \<or> isNaN deltaTime \<or> deltaTime = PInf \<or> deltaTime = NInf"
  shows "update sys deltaTime = sys"
  using assms by (auto simp: update_def)


theorem update_noop_witness:
  "update (sampleSystem\<lparr>isPaused := True\<rparr>) (Fin 1) = sampleSystem\<lparr>isPaused := True\<rparr>
   \<and> update sampleSystem NaN = sampleSystem
   \<and> update sampleSystem PInf = sampleSystem
   \<and> update sampleSystem NInf = sampleSystem"
  using update_noop [of "sampleSystem\<lparr>isPaused := True\<rparr>" "Fin 1"]
    update_noop [of sampleSystem NaN]
    update_noop [of sampleSystem PInf]
    update_noop [of sampleSystem NInf]
  by simp

section \<open>Initialization\<close>

lemma initializePlanet_fresh:
  assumes "initializePlanet timeOffset planet = Inr state"
  shows "velocity state = zeroVec" and "trail state = []" and "data state = planet"
  using assms
  by (auto simp: initializePlanet_def zeroVec_def Let_def split: if_splits sum.splits)

lemma set_AList_update:
  "set (AList.update k v al) \<subseteq> insert (k, v) (set al)"
  by (induction al) auto

lemma initializeEach_all:
  assumes "\<forall>(key, state) \<in> set states. Q state"
    and "\<And>planet state. initializePlanet timeOffset planet = Inr state \<Longrightarrow> Q state"
  shows "\<forall>(key, state) \<in> set (initializeEach timeOffset PLANETS states). Q state"
  using assms(1)
proof (induction PLANETS arbitrary: states)
  case Nil
  then show ?case by simp
next
  case (Cons entry rest)
  obtain key planet where entry: "entry = (key, planet)" by (cases entry)
  show ?case
  proof (cases "initializePlanet timeOffset planet")
    case (Inl err)
    with Cons entry show ?thesis by simp
  next
    case (Inr state)
    have "\<forall>(k, s) \<in> set (AList.update key state states). Q s"
      using set_AList_update [of key state states] Cons.prems assms(2) [OF Inr] by auto
    from Cons.IH [OF this] Inr entry show ?thesis by simp
  qed
qed

lemma initializeEach_keeps:
  assumes "\<exists>state. map_of states key = Some state \<and> Q state"
    and "\<And>planet state. initializePlanet timeOffset planet = Inr state \<Longrightarrow> Q state"
  shows "\<exists>state. map_of (initializeEach timeOffset PLANETS states) key = Some state \<and> Q state"
  using assms(1)
proof (induction PLANETS arbitrary: states)
  case Nil
  then show ?case by simp
next
  case (Cons entry rest)
  obtain k planet where entry: "entry = (k, planet)" by (cases entry)
  show ?case
  proof (cases "initializePlanet timeOffset planet")
    case (Inl err)
    with Cons entry show ?thesis by simp
  next
    case (Inr state)
    have "\<exists>s. map_of (AList.update k state states) key = Some s \<and> Q s"
      using Cons.prems assms(2) [OF Inr] by (auto simp: update_conv')
    from Cons.IH [OF this] Inr entry show ?thesis by simp
  qed
qed

lemma initializeEach_initialized:
  assumes "(key, planet) \<in> set PLANETS" and "initializePlanet timeOffset planet = Inr state0"
    and "\<And>planet state. initializePlanet timeOffset planet = Inr state \<Longrightarrow> Q state"
  shows "\<exists>state. map_of (initializeEach timeOffset PLANETS states) key = Some state \<and> Q state"
  using assms(1)
proof (induction PLANETS arbitrary: states)
  case Nil
  then show ?case by simp
next
  case (Cons entry rest)
  obtain k pl where entry: "entry = (k, pl)" by (cases entry)
  show ?case
  proof (cases "entry = (key, planet)")
    case True
    have "\<exists>s. map_of (AList.update key state0 states) key = Some s \<and> Q s"
      using assms(3) [OF assms(2)] by (simp add: update_conv')
    from initializeEach_keeps [of "AList.update key state0 states" key Q timeOffset rest, OF this assms(3)]
    show ?thesis using True assms(2) by simp
  next
    case False
    with Cons.prems have "(key, planet) \<in> set rest" by auto
    from Cons.IH [OF this] show ?thesis
      using entry by (cases "initializePlanet timeOffset pl") simp_all
  qed
qed

text \<open>
  Claim C10. After \<^verbatim>\<open>initializePlanets\<close>, at construction or at a reset, every body whose
  initialization succeeded has the velocity \<open>(0, 0)\<close>; at construction, when no body existed
  before, every body of the state has. A tick that is paused or has no finite time delta
  leaves the state, and so these velocities, as they are.
\<close>

theorem initial_velocity_zero:
  assumes "initializePlanets startAtCurrentDate now epoch PLANETS sys = (sys', err)"
    and "timeOffsetOf startAtCurrentDate now epoch = Inr timeOffset"
  shows "(\<forall>key planet state0.
            (key, planet) \<in> set PLANETS \<and> initializePlanet timeOffset planet = Inr state0 \<longrightarrow>
            (\<exists>state. bodyState sys' key = Some state \<and> velocity state = \<lparr>vx = Fin 0, vy = Fin 0\<rparr>))
       \<and> (planetStates sys = [] \<longrightarrow>
            (\<forall>(key, state) \<in> set (planetStates sys'). velocity state = \<lparr>vx = Fin 0, vy = Fin 0\<rparr>))
       \<and> (\<forall>deltaTime. isPaused sys' \<or> \<not> isFinite deltaTime \<longrightarrow> update sys' deltaTime = sys')"
proof -
  let ?sys1 = "if startAtCurrentDate then sys\<lparr>currentTime := timeOffset\<rparr> else sys"
  have states: "planetStates sys' = initializeEach timeOffset PLANETS (planetStates sys)"
    using assms by (auto simp: initializePlanets_def Let_def split: if_splits)
  have fresh: "\<And>planet state. initializePlanet timeOffset planet = Inr state \<Longrightarrow> velocity state = zeroVec"
    by (rule initializePlanet_fresh(1))
  have a: "\<exists>state. bodyState sys' key = Some state \<and> velocity state = zeroVec"
    if "(key, planet) \<in> set PLANETS" and "initializePlanet timeOffset planet = Inr state0"
    for key planet state0
    unfolding bodyState_def states
    using initializeEach_initialized [OF that, of "\<lambda>s. velocity s = zeroVec"] fresh by blast
  have b: "\<forall>(key, state) \<in> set (planetStates sys'). velocity state = zeroVec"
    if "planetStates sys = []"
    unfolding states that
    by (rule initializeEach_all) (simp_all add: fresh)
  have c: "update sys' deltaTime = sys'" if "isPaused sys' \<or> \<not> isFinite deltaTime" for deltaTime
    using that by (auto simp: update_def)
  from a b c show ?thesis
    unfolding zeroVec_def by blast
qed

theorem initial_velocity_zero_witness:
  "timeOffsetOf False (Fin 0) (Fin 0) = Inr (Fin 0)
   \<and> (\<exists>state0. initializePlanet (Fin 0) earth = Inr state0)
   \<and> (\<exists>state.
         bodyState (fst (initializePlanets False (Fin 0) (Fin 0) [(''earth'', earth)]
                          (newSystem (Fin (1 / 10)) False 100))) ''earth'' = Some state
         \<and> velocity state = \<lparr>vx = Fin 0, vy = Fin 0\<rparr>)"
proof -
  let ?r = "initializePlanets False (Fin 0) (Fin 0) [(''earth'', earth)]
              (newSystem (Fin (1 / 10)) False 100)"
  have t: "timeOffsetOf False (Fin 0) (Fin 0) = Inr (Fin 0)"
    by (simp add: timeOffsetOf_def)
  obtain state0 where i: "initializePlanet (Fin 0) earth = Inr state0"
    by (simp add: initializePlanet_def earth_def jgt_def)
  have r: "?r = (fst ?r, snd ?r)" by simp
  from initial_velocity_zero [OF r t] i t show ?thesis
    by auto
qed

section \<open>The trail buffer\<close>

lemma lastn_lastn_append: "lastn n (lastn n xs @ ys) = lastn n (xs @ ys)"
proof (cases "length xs \<le> n")
  case True
  then show ?thesis by (simp add: lastn_def)
next
  case False
  define k where "k = length xs - n"
  have k: "k \<le> length xs" and kn: "length xs = k + n"
    using False by (simp_all add: k_def)
  have "lastn n (drop k xs @ ys) = drop (length ys) (drop k xs @ ys)"
    by (simp add: lastn_def kn)
  also have "drop k xs @ ys = drop k (xs @ ys)"
    using k by simp
  also have "drop (length ys) (drop k (xs @ ys)) = drop (length ys + k) (xs @ ys)"
    by (rule drop_drop)
  also have "length ys + k = length (xs @ ys) - n"
    by (simp add: kn)
  finally show ?thesis
    by (simp add: lastn_def k_def)
qed

lemma lastn_short: "length xs \<le> n \<Longrightarrow> lastn n xs = xs"
  by (simp add: lastn_def)

lemma lastn_push: "length xs \<le> n \<Longrightarrow>
  (if length (xs @ [p]) > n then tl (xs @ [p]) else xs @ [p]) = lastn n (xs @ [p])"
proof (cases "length (xs @ [p]) > n")
  case True
  assume "length xs \<le> n"
  with True have "length (xs @ [p]) - n = Suc 0" by simp
  with True show ?thesis
    by (simp only: lastn_def if_True drop_Suc drop_0)
next
  case False
  then show ?thesis by (simp add: lastn_def)
qed

lemma lastn_length: "length (lastn n xs) = min n (length xs)"
  by (simp add: lastn_def)

lemma vec2_copy: "\<lparr>vx = vx p, vy = vy p\<rparr> = (p :: vec2)"
  by simp

lemma updatePlanet_trail:
  assumes "length (trail state) \<le> maxTrailLength sys" and "showTrails sys"
    and "\<not> jle (jmul (period (data state)) (Fin (1461 / 4))) (Fin 0)"
    and "isFinite (jmul (period (data state)) (Fin (1461 / 4)))"
  shows "trail (updatePlanet sys state)
           = lastn (maxTrailLength sys) (trail state @ [position (updatePlanet sys state)])"
    and "data (updatePlanet sys state) = data state"
  using assms lastn_push [of "trail state" "maxTrailLength sys"]
  by (simp_all add: updatePlanet_def Let_def vec2_copy del: length_append)

lemma updatePlanet_trail_bound:
  assumes "length (trail state) \<le> maxTrailLength sys"
  shows "length (trail (updatePlanet sys state)) \<le> maxTrailLength sys"
  using assms by (auto simp: updatePlanet_def Let_def)

lemma update_flags:
  "showTrails (update sys deltaTime) = showTrails sys"
  "isPaused (update sys deltaTime) = isPaused sys"
  "maxTrailLength (update sys deltaTime) = maxTrailLength sys"
  by (simp_all add: update_def Let_def)

lemma update_bodyState:
  assumes "\<not> isPaused sys" and "isFinite deltaTime"
  shows "bodyState (update sys deltaTime) key
           = map_option
               (updatePlanet (sys\<lparr>currentTime := jadd (currentTime sys) (jmul deltaTime (timeSpeed sys))\<rparr>))
               (bodyState sys key)"
proof -
  from assms(2) have "\<not> isNaN deltaTime" by (cases deltaTime) simp_all
  with assms show ?thesis
    by (simp add: update_def bodyState_def Let_def map_of_map [unfolded o_def])
qed

lemma initializePlanets_trailsBounded:
  assumes "trailsBounded sys"
  shows "trailsBounded (fst (initializePlanets startAtCurrentDate now epoch PLANETS sys))"
proof (cases "timeOffsetOf startAtCurrentDate now epoch")
  case (Inl err)
  with assms show ?thesis by (simp add: initializePlanets_def)
next
  case (Inr timeOffset)
  have "\<forall>(key, state) \<in> set (initializeEach timeOffset PLANETS (planetStates sys)).
          length (trail state) \<le> maxTrailLength sys"
    using assms by (intro initializeEach_all) (simp_all add: trailsBounded_def initializePlanet_fresh(2))
  with Inr show ?thesis
    by (simp add: initializePlanets_def Let_def trailsBounded_def)
qed

lemma update_trailsBounded:
  assumes "trailsBounded sys"
  shows "trailsBounded (update sys deltaTime)"
proof (cases "isPaused sys \<or> \<not> isFinite deltaTime \<or> isNaN deltaTime")
  case True
  with assms show ?thesis by (auto simp: update_def)
next
  case False
  let ?sys' = "sys\<lparr>currentTime := jadd (currentTime sys) (jmul deltaTime (timeSpeed sys))\<rparr>"
  have "length (trail (updatePlanet ?sys' state)) \<le> maxTrailLength sys"
    if "(key, state) \<in> set (planetStates sys)" for key state
    using updatePlanet_trail_bound [of state ?sys'] that assms
    by (auto simp: trailsBounded_def)
  with False show ?thesis
    by (auto simp: trailsBounded_def update_def Let_def)
qed

lemma reachable_trailsBounded:
  assumes "reachable PLANETS sys"
  shows "trailsBounded sys"
  using assms
proof (induction rule: reachable.induct)
  case (constructed startAtCurrentDate now epoch speed trails maxTrail sys)
  have "trailsBounded (newSystem speed trails maxTrail)"
    by (simp add: trailsBounded_def newSystem_def)
  from initializePlanets_trailsBounded [OF this, of startAtCurrentDate now epoch PLANETS] constructed
  show ?case by simp
next
  case (ticked sys deltaTime)
  then show ?case by (simp add: update_trailsBounded)
next
  case (was_reset sys startAtCurrentDate now epoch)
  then have "trailsBounded (sys\<lparr>currentTime :=
        (if startAtCurrentDate then jdiv (jsub now epoch) (Fin (1000 * 60 * 60 * 24)) else Fin 0)\<rparr>)"
    by (simp add: trailsBounded_def)
  then show ?case
    unfolding reset_def by (rule initializePlanets_trailsBounded)
qed (simp_all add: trailsBounded_def)

lemma ticks_trail:
  assumes "showTrails sys" and "\<not> isPaused sys" and "\<forall>d \<in> set ds. isFinite d"
    and "bodyState sys key = Some state0"
    and "\<not> jle (jmul (period (data state0)) (Fin (1461 / 4))) (Fin 0)"
    and "isFinite (jmul (period (data state0)) (Fin (1461 / 4)))"
    and "length (trail state0) \<le> maxTrailLength sys"
  shows "\<exists>stateN. bodyState (last (sys # ticks sys ds)) key = Some stateN
           \<and> map Some (trail stateN)
               = lastn (maxTrailLength sys)
                   (map Some (trail state0)
                    @ map (\<lambda>s. map_option position (bodyState s key)) (ticks sys ds))"
  using assms
proof (induction ds arbitrary: sys state0)
  case Nil
  then show ?case by (simp add: lastn_short)
next
  case (Cons d rest)
  let ?sys' = "sys\<lparr>currentTime := jadd (currentTime sys) (jmul d (timeSpeed sys))\<rparr>"
  let ?state1 = "updatePlanet ?sys' state0"
  let ?m = "maxTrailLength sys"
  let ?pos = "\<lambda>s. map_option position (bodyState s key)"
  from Cons.prems have d: "isFinite d" by simp
  have b1: "bodyState (update sys d) key = Some ?state1"
    using update_bodyState [OF Cons.prems(2) d, of key] Cons.prems(4) by simp
  have tr: "trail ?state1 = lastn ?m (trail state0 @ [position ?state1])"
    and dt: "data ?state1 = data state0"
    using updatePlanet_trail [of state0 ?sys'] Cons.prems by simp_all
  have len: "length (trail ?state1) \<le> maxTrailLength (update sys d)"
    by (simp add: tr lastn_length update_flags)
  have "\<exists>stateN. bodyState (last (update sys d # ticks (update sys d) rest)) key = Some stateN
           \<and> map Some (trail stateN)
               = lastn (maxTrailLength (update sys d))
                   (map Some (trail ?state1) @ map ?pos (ticks (update sys d) rest))"
    using Cons.prems
    by (intro Cons.IH [OF _ _ _ b1 _ _ len]) (simp_all add: update_flags dt)
  then obtain stateN where
    n1: "bodyState (last (update sys d # ticks (update sys d) rest)) key = Some stateN"
    and n2: "map Some (trail stateN)
               = lastn ?m (map Some (trail ?state1) @ map ?pos (ticks (update sys d) rest))"
    by (auto simp: update_flags)
  have "map Some (lastn ?m (trail state0 @ [position ?state1]))
          = lastn ?m (map Some (trail state0 @ [position ?state1]))"
    by (simp only: lastn_def drop_map length_map)
  then have "map Some (trail ?state1) = lastn ?m (map Some (trail state0) @ [Some (position ?state1)])"
    by (simp only: tr map_append list.map)
  with n2 have "map Some (trail stateN)
      = lastn ?m (map Some (trail state0) @ Some (position ?state1) # map ?pos (ticks (update sys d) rest))"
    by (simp add: lastn_lastn_append)
  with n1 b1 show ?case
    by auto
qed

lemma sampleSystem_run:
  "initializePlanets False (Fin 0) (Fin 0) [(''earth'', earth)] (newSystem (Fin (1 / 10)) True 1)
     = (\<lparr>timeSpeed = Fin (1 / 10), currentTime = Fin 0, isPaused = False, showTrails = True,
         maxTrailLength = 1,
         planetStates =
           [(''earth'',
             \<lparr>data = earth, meanAnomaly = Fin 0, position = calculateOrbitalPosition earth (Fin 0),
              velocity = \<lparr>vx = Fin 0, vy = Fin 0\<rparr>, trail = []\<rparr>)]\<rparr>, None)"
  by (simp add: initializePlanets_def timeOffsetOf_def initializePlanet_def newSystem_def earth_def
      jgt_def Let_def)

lemma sampleSystem_eq:
  "sampleSystem =
     \<lparr>timeSpeed = Fin (1 / 10), currentTime = Fin 0, isPaused = False, showTrails = True,
      maxTrailLength = 1,
      planetStates =
        [(''earth'',
          \<lparr>data = earth, meanAnomaly = Fin 0, position = calculateOrbitalPosition earth (Fin 0),
           velocity = \<lparr>vx = Fin 0, vy = Fin 0\<rparr>, trail = []\<rparr>)]\<rparr>"
  by (simp only: sampleSystem_def sampleSystem_run fst_conv)

lemma sampleSystem_reachable: "reachable [(''earth'', earth)] sampleSystem"
  unfolding sampleSystem_eq by (rule reachable.constructed) (rule sampleSystem_run)

text \<open>
  Claim C5. In every reachable state the trail of every body holds at most
  \<^verbatim>\<open>maxTrailLength\<close> positions. After \<open>N > maxTrailLength\<close> ticks with trails shown (not
  paused, finite time deltas, a body with a valid period) the trail of the body has exactly
  \<^verbatim>\<open>maxTrailLength\<close> entries: the positions of the body after the last \<^verbatim>\<open>maxTrailLength\<close>
  of the \<open>N\<close> ticks, oldest first.
\<close>

theorem trail_bounded_fifo:
  assumes "reachable PLANETS sys"
  shows "(\<forall>(key, state) \<in> set (planetStates sys). length (trail state) \<le> maxTrailLength sys)
       \<and> (\<forall>ds key state0.
             showTrails sys \<and> \<not> isPaused sys \<and> (\<forall>d \<in> set ds. isFinite d)
             \<and> bodyState sys key = Some state0
             \<and> \<not> jle (jmul (period (data state0)) (Fin (1461 / 4))) (Fin 0)
             \<and> isFinite (jmul (period (data state0)) (Fin (1461 / 4)))
             \<and> maxTrailLength sys < length ds \<longrightarrow>
             (\<exists>stateN. bodyState (last (ticks sys ds)) key = Some stateN
                \<and> length (trail stateN) = maxTrailLength sys
                \<and> map Some (trail stateN)
                    = map (\<lambda>s. map_option position (bodyState s key))
                        (drop (length ds - maxTrailLength sys) (ticks sys ds))))"
proof -
  have bounded: "trailsBounded sys"
    using assms by (rule reachable_trailsBounded)
  have len_ticks: "length (ticks s ds) = length ds" for s ds
    by (induction ds arbitrary: s) simp_all
  have fifo: "\<exists>stateN. bodyState (last (ticks sys ds)) key = Some stateN
                \<and> length (trail stateN) = maxTrailLength sys
                \<and> map Some (trail stateN)
                    = map (\<lambda>s. map_option position (bodyState s key))
                        (drop (length ds - maxTrailLength sys) (ticks sys ds))"
    if h: "showTrails sys" "\<not> isPaused sys" "\<forall>d \<in> set ds. isFinite d"
      "bodyState sys key = Some state0"
      "\<not> jle (jmul (period (data state0)) (Fin (1461 / 4))) (Fin 0)"
      "isFinite (jmul (period (data state0)) (Fin (1461 / 4)))"
      "maxTrailLength sys < length ds"
    for ds key state0
  proof -
    let ?m = "maxTrailLength sys"
    let ?ps = "map (\<lambda>s. map_option position (bodyState s key)) (ticks sys ds)"
    from h(4) have "(key, state0) \<in> set (planetStates sys)"
      by (simp add: bodyState_def map_of_SomeD)
    with bounded have len0: "length (trail state0) \<le> ?m"
      by (auto simp: trailsBounded_def)
    from ticks_trail [OF h(1-6) len0] obtain stateN where
      n1: "bodyState (last (sys # ticks sys ds)) key = Some stateN"
      and n2: "map Some (trail stateN) = lastn ?m (map Some (trail state0) @ ?ps)"
      by blast
    from h(7) have ne: "ticks sys ds \<noteq> []"
      using len_ticks [of sys ds] by auto
    have "lastn ?m (map Some (trail state0) @ ?ps) = drop (length ds - ?m) ?ps"
      using h(7) by (simp add: lastn_def len_ticks)
    with n2 have n3: "map Some (trail stateN)
        = map (\<lambda>s. map_option position (bodyState s key)) (drop (length ds - ?m) (ticks sys ds))"
      by (simp add: drop_map)
    then have "length (map Some (trail stateN)) = length (drop (length ds - ?m) (ticks sys ds))"
      by simp
    then have "length (trail stateN) = ?m"
      using h(7) by (simp add: len_ticks)
    with n1 n3 ne show ?thesis by auto
  qed
  from bounded fifo show ?thesis
    unfolding trailsBounded_def by blast
qed

theorem trail_bounded_fifo_witness:
  "reachable [(''earth'', earth)] sampleSystem
   \<and> length (trail (snd (hd (planetStates sampleSystem)))) \<le> maxTrailLength sampleSystem
   \<and> maxTrailLength sampleSystem < length [Fin 1, Fin 1 :: jsnum]
   \<and> (\<exists>stateN. bodyState (last (ticks sampleSystem [Fin 1, Fin 1])) ''earth'' = Some stateN
         \<and> length (trail stateN) = 1
         \<and> map Some (trail stateN)
             = map (\<lambda>s. map_option position (bodyState s ''earth''))
                 (drop 1 (ticks sampleSystem [Fin 1, Fin 1])))"
proof -
  note bounded_fifo = trail_bounded_fifo [OF sampleSystem_reachable]
  have st: "bodyState sampleSystem ''earth''
              = Some \<lparr>data = earth, meanAnomaly = Fin 0,
                      position = calculateOrbitalPosition earth (Fin 0),
                      velocity = \<lparr>vx = Fin 0, vy = Fin 0\<rparr>, trail = []\<rparr>"
    by (simp add: sampleSystem_eq bodyState_def)
  have flags: "showTrails sampleSystem" "\<not> isPaused sampleSystem" "maxTrailLength sampleSystem = 1"
    by (simp_all add: sampleSystem_eq)
  have per: "\<not> jle (jmul (period earth) (Fin (1461 / 4))) (Fin 0)"
    "isFinite (jmul (period earth) (Fin (1461 / 4)))"
    by (simp_all add: earth_def)
  from bounded_fifo have
    "\<exists>stateN. bodyState (last (ticks sampleSystem [Fin 1, Fin 1])) ''earth'' = Some stateN
       \<and> length (trail stateN) = maxTrailLength sampleSystem
       \<and> map Some (trail stateN)
           = map (\<lambda>s. map_option position (bodyState s ''earth''))
               (drop (length [Fin 1, Fin 1 :: jsnum] - maxTrailLength sampleSystem)
                  (ticks sampleSystem [Fin 1, Fin 1]))"
    using st flags per by (elim conjE allE [of _ "[Fin 1, Fin 1]"] allE [of _ "''earth''"] allE) (erule impE, auto)
  moreover from bounded_fifo have
    "length (trail (snd (hd (planetStates sampleSystem)))) \<le> maxTrailLength sampleSystem"
    by (simp add: sampleSystem_eq)
  ultimately show ?thesis
    using sampleSystem_reachable by (simp add: flags)
qed

section \<open>An infinite semi-major axis\<close>

lemma unbounded_position:
  "calculateOrbitalPosition unbounded M = \<lparr>vx = PInf, vy = Fin 0\<rparr>"
proof -
  have "\<exists>err. calculateOrbitalPositionTry unbounded M = Inl err"
  proof (cases M)
    case (Fin m)
    have s: "solveKeplersEquation (Fin m) (Fin 0) defaultTolerance = Fin m"
      by (simp add: solveKeplersEquation_def solveKeplersRun_def clamp_valid keplerLoop_circular)
    have "\<not> isFinite (jmul PInf (Fin (cos m)))"
      by (simp add: ofSign_def)
    then show ?thesis
      by (simp add: calculateOrbitalPositionTry_def unbounded_def Fin s jge_def jsub_def Let_def)
  next
    case PInf
    then show ?thesis
      using solve_infinite [of "Fin 0" M]
      by (simp add: calculateOrbitalPositionTry_def unbounded_def jge_def Let_def)
  next
    case NInf
    then show ?thesis
      using solve_infinite [of "Fin 0" M]
      by (simp add: calculateOrbitalPositionTry_def unbounded_def jge_def Let_def)
  next
    case NaN
    then show ?thesis
      by (simp add: calculateOrbitalPositionTry_def unbounded_def jge_def Let_def)
  qed
  then obtain err where "calculateOrbitalPositionTry unbounded M = Inl err" ..
  then show ?thesis
    by (simp add: calculateOrbitalPosition_def fallbackPosition_def unbounded_def)
qed

lemma unbounded_speed:
  "calculateOrbitalVelocity unbounded \<lparr>vx = PInf, vy = Fin 0\<rparr> = Fin 0"
  by (simp add: calculateOrbitalVelocity_def calculateOrbitalVelocityTry_def radius_def AU_def
      unbounded_def ofSign_def Let_def)

text \<open>
  Claim C3 asks that no stored position or velocity component is \<^verbatim>\<open>NaN\<close> or infinite,
  whatever the orbital elements. For a body whose semi-major axis is \<^verbatim>\<open>Infinity\<close> the
  initialization stores the position \<open>(Infinity, 0)\<close>, and the first tick stores the velocity
  \<open>(0, NaN)\<close>.
\<close>

theorem infinite_axis_stored:
  "initializePlanets False (Fin 0) (Fin 0) [(''body'', unbounded)] (newSystem (Fin (1 / 10)) False 100)
     = (\<lparr>timeSpeed = Fin (1 / 10), currentTime = Fin 0, isPaused = False, showTrails = False,
         maxTrailLength = 100,
         planetStates =
           [(''body'',
             \<lparr>data = unbounded, meanAnomaly = Fin 0, position = \<lparr>vx = PInf, vy = Fin 0\<rparr>,
              velocity = \<lparr>vx = Fin 0, vy = Fin 0\<rparr>, trail = []\<rparr>)]\<rparr>, None)
   \<and> map (\<lambda>(key, state). (position state, velocity state))
        (planetStates
          (update (fst (initializePlanets False (Fin 0) (Fin 0) [(''body'', unbounded)]
                          (newSystem (Fin (1 / 10)) False 100))) (Fin 1)))
       = [(\<lparr>vx = PInf, vy = Fin 0\<rparr>, \<lparr>vx = Fin 0, vy = NaN\<rparr>)]"
proof -
  have i: "initializePlanets False (Fin 0) (Fin 0) [(''body'', unbounded)] (newSystem (Fin (1 / 10)) False 100)
     = (\<lparr>timeSpeed = Fin (1 / 10), currentTime = Fin 0, isPaused = False, showTrails = False,
         maxTrailLength = 100,
         planetStates =
           [(''body'',
             \<lparr>data = unbounded, meanAnomaly = Fin 0, position = \<lparr>vx = PInf, vy = Fin 0\<rparr>,
              velocity = \<lparr>vx = Fin 0, vy = Fin 0\<rparr>, trail = []\<rparr>)]\<rparr>, None)"
    by (simp add: initializePlanets_def timeOffsetOf_def initializePlanet_def newSystem_def
        unbounded_position jgt_def Let_def)
      (simp add: unbounded_def)
  have p: "period unbounded = Fin 1"
    by (simp add: unbounded_def)
  have r: "radius \<lparr>vx = PInf, vy = Fin 0\<rparr> = PInf"
    by (simp add: radius_def ofSign_def)
  show ?thesis
    unfolding i
    by (simp add: update_def updatePlanet_def Let_def p unbounded_position unbounded_speed r jgt_def
        ofSign_def)
qed

text \<open>Neither stored value is a finite number.\<close>

theorem infinite_axis_not_finite:
  "list_all (\<lambda>(key, state). \<not> isFinite (vx (position state)))
     (planetStates
       (fst (initializePlanets False (Fin 0) (Fin 0) [(''body'', unbounded)]
               (newSystem (Fin (1 / 10)) False 100))))
   \<and> list_all (\<lambda>(key, state). isNaN (vy (velocity state)))
       (planetStates
         (update (fst (initializePlanets False (Fin 0) (Fin 0) [(''body'', unbounded)]
                         (newSystem (Fin (1 / 10)) False 100))) (Fin 1)))"
proof -
  from infinite_axis_stored have
    i: "initializePlanets False (Fin 0) (Fin 0) [(''body'', unbounded)] (newSystem (Fin (1 / 10)) False 100)
     = (\<lparr>timeSpeed = Fin (1 / 10), currentTime = Fin 0, isPaused = False, showTrails = False,
         maxTrailLength = 100,
         planetStates =
           [(''body'',
             \<lparr>data = unbounded, meanAnomaly = Fin 0, position = \<lparr>vx = PInf, vy = Fin 0\<rparr>,
              velocity = \<lparr>vx = Fin 0, vy = Fin 0\<rparr>, trail = []\<rparr>)]\<rparr>, None)"
    and u: "map (\<lambda>(key, state). (position state, velocity state))
        (planetStates
          (update (fst (initializePlanets False (Fin 0) (Fin 0) [(''body'', unbounded)]
                          (newSystem (Fin (1 / 10)) False 100))) (Fin 1)))
       = [(\<lparr>vx = PInf, vy = Fin 0\<rparr>, \<lparr>vx = Fin 0, vy = NaN\<rparr>)]"
    by blast+
  have "list_all (\<lambda>(key, state). isNaN (vy (velocity state))) states"
    if "map (\<lambda>(key, state). (position state, velocity state)) states
          = [(\<lparr>vx = PInf, vy = Fin 0\<rparr>, \<lparr>vx = Fin 0, vy = NaN\<rparr>)]"
    for states :: "(string \<times> planet_state) list"
    using that by (cases states) (auto split: prod.splits)
  from this [OF u] show ?thesis
    by (simp add: i)
qed

end
